theory Spec2Isabelle
  imports Main "HOL-Library.Word"
begin

unbundle bit_operations_syntax

section \<open>IST8310 compass driver: data model\<close>

text \<open>
  A shallow embedding of \<^verbatim>\<open>src/main/drivers/compass_ist8310.c\<close>.
  The C types \<^verbatim>\<open>uint8_t\<close>, \<^verbatim>\<open>int16_t\<close> and \<^verbatim>\<open>int\<close> (32 bits on the ARM
  targets of the firmware) are words of that width; a signed type is read with \<open>sint\<close>.
\<close>

type_synonym u8 = "8 word"
type_synonym s16 = "16 word"
type_synonym s32 = "32 word"

text \<open>\<^verbatim>\<open>ioTag_t\<close> is a byte, 0 meaning that no pin is given; \<^verbatim>\<open>IO_t\<close> is an opaque handle.\<close>

type_synonym ioTag_t = u8
type_synonym IO_t = nat

text \<open>
  \<^verbatim>\<open>ist8310Config_t\<close> (declared in the driver's header): the tag of the pin wired to the
  data-ready output.
\<close>

record ist8310Config_t =
  intTag :: ioTag_t

text \<open>
  The function pointers held by the two slots of \<^verbatim>\<open>mag_t\<close>: this driver's functions, or
  those of some other compass driver.
\<close>

datatype sensorInitFuncPtr = Fn_ist8310Init | OtherInitFn nat
datatype sensorReadFuncPtr = Fn_ist8310Read | OtherReadFn nat

record mag_t =
  init :: "sensorInitFuncPtr option"
  read :: "sensorReadFuncPtr option"

subsection \<open>Build configuration\<close>

text \<open>
  The two feature macros tested by \<^verbatim>\<open>#ifdef\<close>, and the two target macros used as
  arguments (the I2C instance of the compass and the priority of its interrupt), which the
  target's headers define.
\<close>

record build =
  USE_MAG_DATA_READY_SIGNAL :: bool
  ENSURE_MAG_DATA_READY_IS_HIGH :: bool
  MAG_I2C_INSTANCE :: nat
  NVIC_PRIO_MAG_INT_EXTI :: nat

subsection \<open>Register map\<close>

definition IST8310_ADDRESS :: u8 where "IST8310_ADDRESS = 0x0C"
definition IST8310_REG_DATA :: u8 where "IST8310_REG_DATA = 0x03"
definition IST8310_REG_WHOAMI :: u8 where "IST8310_REG_WHOAMI = 0x00"
definition IST8310_REG_CNTRL1 :: u8 where "IST8310_REG_CNTRL1 = 0x0A"
definition IST8310_REG_CNTRL2 :: u8 where "IST8310_REG_CNTRL2 = 0x0B"
definition IST8310_REG_AVERAGE :: u8 where "IST8310_REG_AVERAGE = 0x41"
definition IST8310_ODR_SINGLE :: u8 where "IST8310_ODR_SINGLE = 0x01"
definition IST8310_CHIP_ID :: u8 where "IST8310_CHIP_ID = 0x10"
definition IST8310_AVG_16 :: u8 where "IST8310_AVG_16 = 0x24"

text \<open>
  Modelled from the spec: the axis indices \<^verbatim>\<open>X\<close>, \<^verbatim>\<open>Y\<close>, \<^verbatim>\<open>Z\<close> of
  \<^verbatim>\<open>common/axis.h\<close>, which is not among the sources. The spec gives a sample as three
  signed 16-bit integers (X, Y, Z). A sample is the array of three \<^verbatim>\<open>int16_t\<close> that the
  caller's pointer designates, indexed by axis; \<open>magData(X := v)\<close> is the store
  \<^verbatim>\<open>magData[X] = v\<close>.
\<close>

datatype axis_e = X | Y | Z

type_synonym sample = "axis_e \<Rightarrow> s16"

section \<open>The platform\<close>

text \<open>
  Every call into the platform (bus, delay, pins, external interrupts) is recorded, with
  its arguments, in a trace: the event \<open>f_ev\<close> records a call of \<^verbatim>\<open>f\<close>.
\<close>

datatype exti_trigger = EXTI_Trigger_Rising | EXTI_Trigger_Falling | EXTI_Trigger_Rising_Falling

datatype extiHandler = Fn_ist8310_extiHandler | OtherExtiHandler nat

datatype event =
    i2cRead_ev nat u8 u8 nat
  | i2cWrite_ev nat u8 u8 u8
  | delay_ev nat
  | IOGetByTag_ev ioTag_t
  | IORead_ev IO_t
  | EXTIHandlerInit_ev extiHandler
  | EXTIConfig_ev IO_t nat exti_trigger
  | EXTIEnable_ev IO_t bool

text \<open>
  The platform is a parameter. What it answers may depend on everything that was called
  before, so each answer is a function of the trace so far:
  \<^item> \<open>bus_read\<close>: the acknowledge of a register read and the bytes the bus driver stores
    into the caller's buffer;
  \<^item> \<open>bus_write\<close>: the acknowledge of a register write;
  \<^item> \<open>io_by_tag\<close>: the handle of a pin; \<open>io_level\<close>: the level read on a pin;
  \<^item> \<open>uninit_u8\<close>, \<open>uninit_s16\<close>: the indeterminate content of an uninitialised
    automatic array (\<^verbatim>\<open>buf\<close> of the read, \<^verbatim>\<open>magADC\<close> of the initialisation).
\<close>

record platform =
  bus_read :: "event list \<Rightarrow> nat \<Rightarrow> u8 \<Rightarrow> u8 \<Rightarrow> nat \<Rightarrow> bool \<times> u8 list"
  bus_write :: "event list \<Rightarrow> nat \<Rightarrow> u8 \<Rightarrow> u8 \<Rightarrow> u8 \<Rightarrow> bool"
  io_by_tag :: "ioTag_t \<Rightarrow> IO_t"
  io_level :: "event list \<Rightarrow> IO_t \<Rightarrow> bool"
  uninit_u8 :: "event list \<Rightarrow> nat \<Rightarrow> u8"
  uninit_s16 :: "event list \<Rightarrow> sample"

text \<open>
  The file's static variables: the configuration pointer (\<open>None\<close> is \<^verbatim>\<open>NULL\<close>, its
  initial value; the record it points to is the caller's and is not changed by the driver)
  and the pin handle, together with the trace of the platform.
\<close>

record world =
  ist8310Config :: "ist8310Config_t option"
  intIO :: IO_t
  trace :: "event list"

subsection \<open>Platform calls\<close>

text \<open>
  \<^verbatim>\<open>i2cRead(device, addr, reg, len, buf)\<close> stores at most \<open>len\<close> bytes at the start of
  \<open>buf\<close> and returns the acknowledge.
\<close>

definition i2cRead ::
  "platform \<Rightarrow> nat \<Rightarrow> u8 \<Rightarrow> u8 \<Rightarrow> nat \<Rightarrow> u8 list \<Rightarrow> world \<Rightarrow> (bool \<times> u8 list) \<times> world" where
  "i2cRead p dev addr reg len buf w =
     (let (ack, bytes) = bus_read p (trace w) dev addr reg len;
          got = take (min len (length buf)) bytes
      in ((ack, got @ drop (length got) buf),
          w\<lparr>trace := trace w @ [i2cRead_ev dev addr reg len]\<rparr>))"

definition i2cWrite :: "platform \<Rightarrow> nat \<Rightarrow> u8 \<Rightarrow> u8 \<Rightarrow> u8 \<Rightarrow> world \<Rightarrow> bool \<times> world" where
  "i2cWrite p dev addr reg data w =
     (bus_write p (trace w) dev addr reg data,
      w\<lparr>trace := trace w @ [i2cWrite_ev dev addr reg data]\<rparr>)"

definition delay :: "nat \<Rightarrow> world \<Rightarrow> world" where
  "delay ms w = w\<lparr>trace := trace w @ [delay_ev ms]\<rparr>"

definition IOGetByTag :: "platform \<Rightarrow> ioTag_t \<Rightarrow> world \<Rightarrow> IO_t \<times> world" where
  "IOGetByTag p tag w = (io_by_tag p tag, w\<lparr>trace := trace w @ [IOGetByTag_ev tag]\<rparr>)"

definition IORead :: "platform \<Rightarrow> IO_t \<Rightarrow> world \<Rightarrow> bool \<times> world" where
  "IORead p io w = (io_level p (trace w) io, w\<lparr>trace := trace w @ [IORead_ev io]\<rparr>)"

definition EXTIHandlerInit :: "extiHandler \<Rightarrow> world \<Rightarrow> world" where
  "EXTIHandlerInit fn w = w\<lparr>trace := trace w @ [EXTIHandlerInit_ev fn]\<rparr>"

definition EXTIConfig :: "IO_t \<Rightarrow> nat \<Rightarrow> exti_trigger \<Rightarrow> world \<Rightarrow> world" where
  "EXTIConfig io prio trig w = w\<lparr>trace := trace w @ [EXTIConfig_ev io prio trig]\<rparr>"

definition EXTIEnable :: "IO_t \<Rightarrow> bool \<Rightarrow> world \<Rightarrow> world" where
  "EXTIEnable io en w = w\<lparr>trace := trace w @ [EXTIEnable_ev io en]\<rparr>"

section \<open>The driver\<close>

subsection \<open>Reading a sample\<close>

text \<open>
  The C expression \<^verbatim>\<open>(int16_t)(hi << 8 | lo)\<close>: both bytes are promoted to \<^verbatim>\<open>int\<close>,
  and the conversion to \<^verbatim>\<open>int16_t\<close> keeps the low 16 bits (the behaviour GCC defines).
\<close>

definition int16_of_bytes :: "u8 \<Rightarrow> u8 \<Rightarrow> s16" where
  "int16_of_bytes hi lo = ucast (push_bit 8 (ucast hi :: s32) OR (ucast lo :: s32))"

text \<open>
  The arithmetic of the three assignments is done in \<^verbatim>\<open>int\<close>, on the promoted operands;
  the assignment to an \<^verbatim>\<open>int16_t\<close> element keeps the low 16 bits of the result.
\<close>

definition LSB2FSV :: u8 where "LSB2FSV = 3"

definition ist8310Read :: "build \<Rightarrow> platform \<Rightarrow> sample \<Rightarrow> world \<Rightarrow> (bool \<times> sample) \<times> world" where
  "ist8310Read b p magData w =
     (let buf0 = map (uninit_u8 p (trace w)) [0..<6];
          ((ack, buf), w1) = i2cRead p (MAG_I2C_INSTANCE b) IST8310_ADDRESS IST8310_REG_DATA 6 buf0 w
      in if \<not> ack then ((False, magData), w1)
         else
           let magData1 = magData(X := ucast (- (scast (int16_of_bytes (buf ! 1) (buf ! 0)) :: s32) * ucast LSB2FSV));
               magData2 = magData1(Y := ucast ((scast (int16_of_bytes (buf ! 3) (buf ! 2)) :: s32) * ucast LSB2FSV));
               magData3 = magData2(Z := ucast ((scast (int16_of_bytes (buf ! 5) (buf ! 4)) :: s32) * ucast LSB2FSV));
               (_, w2) = i2cWrite p (MAG_I2C_INSTANCE b) IST8310_ADDRESS IST8310_REG_CNTRL1 IST8310_ODR_SINGLE w1
           in ((True, magData3), w2))"

subsection \<open>Detection\<close>

definition ist8310Detect ::
  "build \<Rightarrow> platform \<Rightarrow> mag_t \<Rightarrow> ist8310Config_t option \<Rightarrow> world \<Rightarrow> (bool \<times> mag_t) \<times> world" where
  "ist8310Detect b p mag ist8310ConfigToUse w =
     (let sig0 = [0 :: u8];
          w1 = w\<lparr>ist8310Config := ist8310ConfigToUse\<rparr>;
          ((ack, sigbuf), w2) = i2cRead p (MAG_I2C_INSTANCE b) IST8310_ADDRESS IST8310_REG_WHOAMI 1 sig0 w1;
          sig = sigbuf ! 0
      in if \<not> ack \<or> sig \<noteq> IST8310_CHIP_ID then ((False, mag), w2)
         else ((True, mag\<lparr>init := Some Fn_ist8310Init, read := Some Fn_ist8310Read\<rparr>), w2))"

subsection \<open>Initialisation\<close>

text \<open>
  The interrupt handler ignores its argument; its body is compiled only under
  \<^verbatim>\<open>DEBUG_MAG_DATA_READY_INTERRUPT\<close>, whose definition is commented out.
\<close>

definition ist8310_extiHandler :: "world \<Rightarrow> world" where
  "ist8310_extiHandler w = w"

text \<open>
  \<open>None\<close> is the dereference of a null configuration pointer, which the driver does not
  guard against.
\<close>

definition ist8310ConfigureDataReadyInterruptHandling :: "build \<Rightarrow> platform \<Rightarrow> world \<Rightarrow> world option" where
  "ist8310ConfigureDataReadyInterruptHandling b p w =
     (if \<not> USE_MAG_DATA_READY_SIGNAL b then Some w
      else case ist8310Config w of
        None \<Rightarrow> None
      | Some cfg \<Rightarrow>
          if intTag cfg = 0 then Some w
          else
            let (io, w1) = IOGetByTag p (intTag cfg) w;
                w2 = w1\<lparr>intIO := io\<rparr>;
                (status, w3) = (if ENSURE_MAG_DATA_READY_IS_HIGH b then IORead p (intIO w2) w2
                                else (True, w2))
            in if \<not> status then Some w3
               else
                 let w4 = EXTIHandlerInit Fn_ist8310_extiHandler w3;
                     w5 = EXTIConfig (intIO w4) (NVIC_PRIO_MAG_INT_EXTI b) EXTI_Trigger_Rising w4;
                     w6 = EXTIEnable (intIO w5) True w5
                 in Some w6)"

definition ist8310Init :: "build \<Rightarrow> platform \<Rightarrow> world \<Rightarrow> world option" where
  "ist8310Init b p w =
     (let magADC = uninit_s16 p (trace w);
          (_, w1) = i2cWrite p (MAG_I2C_INSTANCE b) IST8310_ADDRESS IST8310_REG_CNTRL1 IST8310_ODR_SINGLE w;
          w2 = delay 5 w1;
          (_, w3) = i2cWrite p (MAG_I2C_INSTANCE b) IST8310_ADDRESS IST8310_REG_AVERAGE IST8310_AVG_16 w2;
          w4 = delay 5 w3;
          (_, w5) = ist8310Read b p magADC w4;
          w6 = delay 5 w5;
          (_, w7) = i2cWrite p (MAG_I2C_INSTANCE b) IST8310_ADDRESS IST8310_REG_CNTRL1 IST8310_ODR_SINGLE w6
      in ist8310ConfigureDataReadyInterruptHandling b p w7)"

section \<open>Notions used to state the properties\<close>

text \<open>
  The value of a little-endian signed 16-bit word, from its low and high byte, and the
  reduction of an integer modulo \<open>2^16\<close> into the range of \<^verbatim>\<open>int16_t\<close>.
\<close>

definition LE16 :: "u8 \<Rightarrow> u8 \<Rightarrow> int" where
  "LE16 lo hi = (let u = uint lo + 256 * uint hi in if u < 32768 then u else u - 65536)"

definition wrap_int16 :: "int \<Rightarrow> int" where
  "wrap_int16 v = (v + 32768) mod 65536 - 32768"

text \<open>The kinds of platform calls, and the bus operations of the driver by name.\<close>

fun is_bus_op :: "event \<Rightarrow> bool" where
  "is_bus_op (i2cRead_ev _ _ _ _) = True"
| "is_bus_op (i2cWrite_ev _ _ _ _) = True"
| "is_bus_op _ = False"

fun is_delay :: "event \<Rightarrow> bool" where
  "is_delay (delay_ev _) = True"
| "is_delay _ = False"

fun is_exti_call :: "event \<Rightarrow> bool" where
  "is_exti_call (EXTIHandlerInit_ev _) = True"
| "is_exti_call (EXTIConfig_ev _ _ _) = True"
| "is_exti_call (EXTIEnable_ev _ _) = True"
| "is_exti_call _ = False"

fun is_register_event :: "event \<Rightarrow> bool" where
  "is_register_event e = (is_bus_op e \<or> is_delay e)"

definition fits_int16 :: "int \<Rightarrow> bool" where
  "fits_int16 v = (- 32768 \<le> v \<and> v \<le> 32767)"

definition whoami_read :: "build \<Rightarrow> event" where
  "whoami_read b = i2cRead_ev (MAG_I2C_INSTANCE b) 0x0C 0x00 1"

definition data_read :: "build \<Rightarrow> event" where
  "data_read b = i2cRead_ev (MAG_I2C_INSTANCE b) 0x0C 0x03 6"

definition mode_write :: "build \<Rightarrow> event" where
  "mode_write b = i2cWrite_ev (MAG_I2C_INSTANCE b) 0x0C 0x0A 0x01"

definition averaging_write :: "build \<Rightarrow> event" where
  "averaging_write b = i2cWrite_ev (MAG_I2C_INSTANCE b) 0x0C 0x41 0x24"

text \<open>
  What the bus answers to the who-am-i read of a detection started in world \<open>w\<close>: the
  acknowledge, and the byte found in \<^verbatim>\<open>sig\<close> afterwards (the first byte delivered, or the
  initial 0 when the bus driver stored nothing).
\<close>

definition whoami_ack :: "build \<Rightarrow> platform \<Rightarrow> world \<Rightarrow> bool" where
  "whoami_ack b p w = fst (bus_read p (trace w) (MAG_I2C_INSTANCE b) 0x0C 0x00 1)"

definition whoami_byte :: "build \<Rightarrow> platform \<Rightarrow> world \<Rightarrow> u8" where
  "whoami_byte b p w =
     (case snd (bus_read p (trace w) (MAG_I2C_INSTANCE b) 0x0C 0x00 1) of [] \<Rightarrow> 0 | x # _ \<Rightarrow> x)"

text \<open>
  What the bus answers to the data burst of a read started in world \<open>w\<close>: the
  acknowledge, and the six bytes found in \<^verbatim>\<open>buf\<close> afterwards.
\<close>

definition burst_ack :: "build \<Rightarrow> platform \<Rightarrow> world \<Rightarrow> bool" where
  "burst_ack b p w = fst (bus_read p (trace w) (MAG_I2C_INSTANCE b) 0x0C 0x03 6)"

definition burst_buffer :: "build \<Rightarrow> platform \<Rightarrow> world \<Rightarrow> u8 list" where
  "burst_buffer b p w =
     snd (fst (i2cRead p (MAG_I2C_INSTANCE b) 0x0C 0x03 6 (map (uninit_u8 p (trace w)) [0..<6]) w))"

text \<open>
  The acknowledge of the data burst issued by the initialisation (after the two writes and
  their delays), and the register sequence of the initialisation: the read re-arms the
  sensor itself when its burst is acknowledged, before the initialisation re-arms it.
\<close>

definition init_data_ack :: "build \<Rightarrow> platform \<Rightarrow> world \<Rightarrow> bool" where
  "init_data_ack b p w =
     burst_ack b p (w\<lparr>trace := trace w @ [mode_write b, delay_ev 5, averaging_write b, delay_ev 5]\<rparr>)"

definition init_register_events :: "build \<Rightarrow> platform \<Rightarrow> world \<Rightarrow> event list" where
  "init_register_events b p w =
     [mode_write b, delay_ev 5, averaging_write b, delay_ev 5, data_read b]
     @ (if init_data_ack b p w then [mode_write b] else [])
     @ [delay_ev 5, mode_write b]"

text \<open>The calls recorded by a run, \<open>None\<close> being a run that faulted.\<close>

definition issued :: "world option \<Rightarrow> event list" where
  "issued r = (case r of None \<Rightarrow> [] | Some w \<Rightarrow> trace w)"

subsection \<open>Concrete platforms\<close>

text \<open>
  A bus that answers every read with the same acknowledge and bytes and every write with
  the same acknowledge, and a pin that always reads the same level.
\<close>

definition mock :: "bool \<Rightarrow> u8 list \<Rightarrow> bool \<Rightarrow> bool \<Rightarrow> platform" where
  "mock rd_ack rd_bytes wr_ack level =
     \<lparr>bus_read = (\<lambda>tr dev addr reg len. (rd_ack, rd_bytes)),
      bus_write = (\<lambda>tr dev addr reg data. wr_ack),
      io_by_tag = (\<lambda>tag. unat tag),
      io_level = (\<lambda>tr io. level),
      uninit_u8 = (\<lambda>tr i. 0xAA),
      uninit_s16 = (\<lambda>tr a. 0x5555)\<rparr>"

definition build0 :: "bool \<Rightarrow> bool \<Rightarrow> build" where
  "build0 use_signal ensure_high =
     \<lparr>USE_MAG_DATA_READY_SIGNAL = use_signal, ENSURE_MAG_DATA_READY_IS_HIGH = ensure_high,
      MAG_I2C_INSTANCE = 1, NVIC_PRIO_MAG_INT_EXTI = 15\<rparr>"

definition world0 :: "ist8310Config_t option \<Rightarrow> world" where
  "world0 cfg = \<lparr>ist8310Config = cfg, intIO = 0, trace = []\<rparr>"

definition mag0 :: mag_t where
  "mag0 = \<lparr>init = None, read = None\<rparr>"

definition sample0 :: sample where
  "sample0 = (\<lambda>a. 7)"

section \<open>Arithmetic of the decoding\<close>

lemmas ist8310_regs =
  IST8310_ADDRESS_def IST8310_REG_DATA_def IST8310_REG_WHOAMI_def IST8310_REG_CNTRL1_def
  IST8310_REG_AVERAGE_def IST8310_ODR_SINGLE_def IST8310_CHIP_ID_def IST8310_AVG_16_def

lemmas ist8310_ops = whoami_read_def data_read_def mode_write_def averaging_write_def

lemma wrap_int16_signed_take_bit: "wrap_int16 v = signed_take_bit 15 v"
  by (simp add: wrap_int16_def signed_take_bit_eq_take_bit_shift take_bit_eq_mod)

lemma uint_byte_bounds: "0 \<le> uint (b :: u8) \<and> uint b < 256"
  using uint_bounded [of b] by simp

lemma uint_promote_byte: "uint (ucast (b :: u8) :: s32) = uint b"
  by (simp add: uint_up_ucast is_up)

lemma uint_shift_or:
  "uint (push_bit 8 (ucast (hi :: u8) :: s32) OR (ucast (lo :: u8) :: s32)) = uint lo + 256 * uint hi"
proof -
  have "(word_cat hi lo :: s32) = push_bit 8 (ucast hi) OR ucast lo"
    by (simp add: word_cat_eq_push_bit_or)
  moreover have "(word_cat hi lo :: s32) = push_bit 8 (ucast hi) + ucast lo"
    by (simp add: word_cat_eq)
  ultimately have "push_bit 8 (ucast hi :: s32) OR (ucast lo :: s32) = push_bit 8 (ucast hi :: s32) + ucast lo"
    by simp
  moreover have "uint (push_bit 8 (ucast hi :: s32) + ucast lo) = (256 * uint hi + uint lo) mod 2 ^ 32"
    by (simp only: uint_word_ariths push_bit_eq_mult uint_promote_byte) (simp add: mod_simps uint_promote_byte uint_word_ariths mult.commute)
  ultimately show ?thesis
    using uint_byte_bounds [of hi] uint_byte_bounds [of lo] by simp
qed

lemma uint_int16_of_bytes: "uint (int16_of_bytes hi lo) = uint lo + 256 * uint hi"
proof -
  have "uint (int16_of_bytes hi lo) = (uint lo + 256 * uint hi) mod 65536"
    unfolding int16_of_bytes_def
    by (simp only: unsigned_ucast_eq uint_shift_or take_bit_eq_mod) simp
  then show ?thesis
    using uint_byte_bounds [of hi] uint_byte_bounds [of lo] by simp
qed

lemma wrap_int16_id: "- 32768 \<le> v \<Longrightarrow> v < 32768 \<Longrightarrow> wrap_int16 v = v"
  by (simp add: wrap_int16_def)

lemma wrap_int16_above: "32768 \<le> v \<Longrightarrow> v < 98304 \<Longrightarrow> wrap_int16 v = v - 65536"
proof -
  assume a: "32768 \<le> v" "v < 98304"
  have "v + 32768 = v - 32768 + 65536" by arith
  then have "(v + 32768) mod 65536 = (v - 32768 + 65536) mod 65536" by (rule arg_cong)
  also have "\<dots> = (v - 32768) mod 65536" by (simp only: mod_add_self2)
  also have "\<dots> = v - 32768" using a by simp
  finally show ?thesis by (simp add: wrap_int16_def)
qed

lemma sint_int16_of_bytes: "sint (int16_of_bytes hi lo) = LE16 lo hi"
proof -
  have "sint (int16_of_bytes hi lo) = wrap_int16 (uint lo + 256 * uint hi)"
    by (simp only: sint_uint uint_int16_of_bytes wrap_int16_signed_take_bit) simp
  also have "\<dots> = LE16 lo hi"
  proof (cases "uint lo + 256 * uint hi < 32768")
    case True
    moreover have "- 32768 \<le> uint lo + 256 * uint hi"
      using uint_byte_bounds [of hi] uint_byte_bounds [of lo] by arith
    ultimately show ?thesis
      by (simp add: LE16_def Let_def wrap_int16_id)
  next
    case False
    moreover have "uint lo + 256 * uint hi < 98304"
      using uint_byte_bounds [of hi] uint_byte_bounds [of lo] by arith
    ultimately show ?thesis
      by (simp add: LE16_def Let_def wrap_int16_above)
  qed
  finally show ?thesis .
qed

lemma sint_int16_bounds: "- 32768 \<le> sint (r :: s16) \<and> sint r < 32768"
  using sint_ge [of r] sint_lt [of r] by simp

lemma sint_promote: "sint (scast (r :: s16) :: s32) = sint r"
  by (simp add: sint_up_scast is_up)

lemma sint_store: "sint (ucast (v :: s32) :: s16) = wrap_int16 (sint v)"
proof -
  have "sint (ucast v :: s16) = signed_take_bit 15 (uint v)"
    by (simp only: signed_ucast_eq) simp
  also have "\<dots> = signed_take_bit 15 (signed_take_bit 31 (uint v))"
    by (simp add: signed_take_bit_signed_take_bit)
  also have "\<dots> = signed_take_bit 15 (sint v)"
    by (simp only: sint_uint) simp
  finally show ?thesis by (simp only: wrap_int16_signed_take_bit)
qed

lemma sint_LSB2FSV: "sint (ucast LSB2FSV :: s32) = 3"
  by (simp add: LSB2FSV_def)

lemma sint_mul3: "sint ((scast (r :: s16) :: s32) * ucast LSB2FSV) = sint r * 3"
proof -
  have "sint ((scast r :: s32) * ucast LSB2FSV) = signed_take_bit 31 (sint r * 3)"
    by (simp only: sint_word_mult sint_promote sint_LSB2FSV) simp
  also have "\<dots> = sint r * 3"
    using sint_int16_bounds [of r]
    by (simp add: signed_take_bit_eq_take_bit_shift take_bit_eq_mod)
  finally show ?thesis .
qed

lemma sint_neg_mul3: "sint (- (scast (r :: s16) :: s32) * ucast LSB2FSV) = - sint r * 3"
proof -
  have n: "sint (- (scast r :: s32)) = - sint r"
  proof -
    have "sint (- (scast r :: s32)) = signed_take_bit 31 (- sint r)"
      by (simp only: sint_word_minus sint_promote) simp
    also have "\<dots> = - sint r"
      using sint_int16_bounds [of r]
      by (simp add: signed_take_bit_eq_take_bit_shift take_bit_eq_mod)
    finally show ?thesis .
  qed
  have "sint (- (scast r :: s32) * ucast LSB2FSV) = signed_take_bit 31 (- sint r * 3)"
    by (simp only: sint_word_mult n sint_LSB2FSV) simp
  also have "\<dots> = - sint r * 3"
    using sint_int16_bounds [of r]
    by (simp add: signed_take_bit_eq_take_bit_shift take_bit_eq_mod)
  finally show ?thesis .
qed

section \<open>The platform calls\<close>

lemma i2cRead_world:
  "snd (i2cRead p dev addr reg len buf w) = w\<lparr>trace := trace w @ [i2cRead_ev dev addr reg len]\<rparr>"
  by (simp add: i2cRead_def Let_def case_prod_beta)

lemma i2cRead_ack:
  "fst (fst (i2cRead p dev addr reg len buf w)) = fst (bus_read p (trace w) dev addr reg len)"
  by (simp add: i2cRead_def Let_def case_prod_beta)

lemma burst_buffer_length: "length (burst_buffer b p w) = 6"
  by (simp add: burst_buffer_def i2cRead_def Let_def case_prod_beta)

lemma burst_buffer_six:
  "bus_read p (trace w) (MAG_I2C_INSTANCE b) 0x0C 0x03 6 = (ack, [b0, b1, b2, b3, b4, b5])
   \<Longrightarrow> burst_buffer b p w = [b0, b1, b2, b3, b4, b5]"
  by (simp add: burst_buffer_def i2cRead_def Let_def)

section \<open>Reading a sample\<close>

lemma ist8310Read_nack:
  "\<not> burst_ack b p w
   \<Longrightarrow> ist8310Read b p magData w = ((False, magData), w\<lparr>trace := trace w @ [data_read b]\<rparr>)"
  by (simp add: burst_ack_def ist8310Read_def i2cRead_def ist8310_regs data_read_def Let_def case_prod_beta)

lemma ist8310Read_ack:
  "burst_ack b p w
   \<Longrightarrow> ist8310Read b p magData w =
        ((True, magData
            (X := ucast (- (scast (int16_of_bytes (burst_buffer b p w ! 1) (burst_buffer b p w ! 0)) :: s32) * ucast LSB2FSV),
             Y := ucast ((scast (int16_of_bytes (burst_buffer b p w ! 3) (burst_buffer b p w ! 2)) :: s32) * ucast LSB2FSV),
             Z := ucast ((scast (int16_of_bytes (burst_buffer b p w ! 5) (burst_buffer b p w ! 4)) :: s32) * ucast LSB2FSV))),
         w\<lparr>trace := trace w @ [data_read b, mode_write b]\<rparr>)"
  by (simp add: burst_ack_def burst_buffer_def ist8310Read_def i2cRead_def i2cWrite_def
      ist8310_regs ist8310_ops Let_def case_prod_beta)

lemma ist8310Read_world:
  "snd (ist8310Read b p magData w) =
     w\<lparr>trace := trace w @ data_read b # (if burst_ack b p w then [mode_write b] else [])\<rparr>"
  by (cases "burst_ack b p w") (simp_all add: ist8310Read_nack ist8310Read_ack)

lemma decode_negated:
  "sint (ucast (- (scast (int16_of_bytes hi lo) :: s32) * ucast LSB2FSV) :: s16) = wrap_int16 (- LE16 lo hi * 3)"
  by (simp only: sint_store sint_neg_mul3 sint_int16_of_bytes)

lemma decode_negated_nf:
  "sint (ucast (- ((scast (int16_of_bytes hi lo) :: s32) * ucast LSB2FSV)) :: s16) = wrap_int16 (- (LE16 lo hi * 3))"
  using decode_negated [of hi lo] by simp

lemma decode_plain:
  "sint (ucast ((scast (int16_of_bytes hi lo) :: s32) * ucast LSB2FSV) :: s16) = wrap_int16 (LE16 lo hi * 3)"
  by (simp only: sint_store sint_mul3 sint_int16_of_bytes)

lemma ist8310Read_decoded:
  assumes "burst_ack b p w" and "B = burst_buffer b p w" and "out = snd (fst (ist8310Read b p magData w))"
  shows "sint (out X) = wrap_int16 (- LE16 (B ! 0) (B ! 1) * 3)"
    and "sint (out Y) = wrap_int16 (LE16 (B ! 2) (B ! 3) * 3)"
    and "sint (out Z) = wrap_int16 (LE16 (B ! 4) (B ! 5) * 3)"
  using assms by (simp_all add: ist8310Read_ack decode_negated_nf decode_plain)

lemma fits_int16_wrap: "fits_int16 v \<Longrightarrow> wrap_int16 v = v"
  by (simp add: fits_int16_def wrap_int16_id)

lemma burst_bus_write:
  "burst_ack b (p\<lparr>bus_write := wr\<rparr>) w = burst_ack b p w"
  "burst_buffer b (p\<lparr>bus_write := wr\<rparr>) w = burst_buffer b p w"
  by (simp_all add: burst_ack_def burst_buffer_def i2cRead_def)

lemma mock_burst:
  "burst_ack b (mock ra [b0, b1, b2, b3, b4, b5] wa lv) w = ra"
  "burst_buffer b (mock ra [b0, b1, b2, b3, b4, b5] wa lv) w = [b0, b1, b2, b3, b4, b5]"
  by (simp_all add: burst_ack_def burst_buffer_def i2cRead_def mock_def)

section \<open>Properties of the read\<close>

text \<open>
  Claim C10. For every content \<open>B\<close> of the six-byte buffer after an acknowledged burst,
  each axis value stored by the read is the mathematical product (the negated raw word
  for X, the raw word for Y and Z, each raw word taken little-endian and signed, times 3)
  reduced modulo \<open>2^16\<close> into the range of \<^verbatim>\<open>int16_t\<close>: a product outside that range
  wraps around; it is neither saturated nor stored exactly.
\<close>

theorem ist8310Read_wraps:
  assumes "burst_ack b p w" and "B = burst_buffer b p w"
    and "out = snd (fst (ist8310Read b p magData w))"
  shows "sint (out X) = wrap_int16 (- LE16 (B ! 0) (B ! 1) * 3)
       \<and> sint (out Y) = wrap_int16 (LE16 (B ! 2) (B ! 3) * 3)
       \<and> sint (out Z) = wrap_int16 (LE16 (B ! 4) (B ! 5) * 3)"
  using ist8310Read_decoded [OF assms] by simp

theorem ist8310Read_wraps_witness:
  "burst_ack (build0 False False) (mock True [0x00, 0x40, 0xFF, 0x7F, 0x00, 0x80] True True) (world0 None)
   \<and> burst_buffer (build0 False False) (mock True [0x00, 0x40, 0xFF, 0x7F, 0x00, 0x80] True True) (world0 None)
       = [0x00, 0x40, 0xFF, 0x7F, 0x00, 0x80]
   \<and> sint (snd (fst (ist8310Read (build0 False False)
         (mock True [0x00, 0x40, 0xFF, 0x7F, 0x00, 0x80] True True) sample0 (world0 None))) X) = 16384
   \<and> sint (snd (fst (ist8310Read (build0 False False)
         (mock True [0x00, 0x40, 0xFF, 0x7F, 0x00, 0x80] True True) sample0 (world0 None))) Y) = 32765
   \<and> sint (snd (fst (ist8310Read (build0 False False)
         (mock True [0x00, 0x40, 0xFF, 0x7F, 0x00, 0x80] True True) sample0 (world0 None))) Z) = - 32768"
proof -
  let ?p = "mock True [0x00, 0x40, 0xFF, 0x7F, 0x00, 0x80] True True"
  have a: "burst_ack (build0 False False) ?p (world0 None)"
    by (simp add: burst_ack_def mock_def)
  have bb: "burst_buffer (build0 False False) ?p (world0 None) = [0x00, 0x40, 0xFF, 0x7F, 0x00, 0x80]"
    by (rule burst_buffer_six [where ack = True]) (simp add: mock_def)
  show ?thesis
    using a bb ist8310Read_wraps [OF a bb [symmetric] refl, of sample0]
    by (simp add: LE16_def wrap_int16_def)
qed

text \<open>
  Claim C1, as stated, fails: with the buffer \<open>[0x00, 0x40, 0, 0, 0, 0]\<close> the raw X word
  is 16384, the product \<open>-16384 * 3 = -49152\<close> does not fit an \<^verbatim>\<open>int16_t\<close>, and the read
  stores 16384.
\<close>

theorem ist8310Read_exact_counterexample:
  "fst (fst (ist8310Read (build0 False False) (mock True [0x00, 0x40, 0, 0, 0, 0] True True) sample0 (world0 None)))
   \<and> burst_buffer (build0 False False) (mock True [0x00, 0x40, 0, 0, 0, 0] True True) (world0 None)
       = [0x00, 0x40, 0, 0, 0, 0]
   \<and> sint (snd (fst (ist8310Read (build0 False False) (mock True [0x00, 0x40, 0, 0, 0, 0] True True)
         sample0 (world0 None))) X) = 16384
   \<and> - LE16 0x00 0x40 * 3 = - 49152
   \<and> sint (snd (fst (ist8310Read (build0 False False) (mock True [0x00, 0x40, 0, 0, 0, 0] True True)
         sample0 (world0 None))) X) \<noteq> - LE16 0x00 0x40 * 3"
proof -
  let ?p = "mock True [0x00, 0x40, 0, 0, 0, 0] True True"
  have a: "burst_ack (build0 False False) ?p (world0 None)"
    by (simp add: mock_burst)
  have bb: "burst_buffer (build0 False False) ?p (world0 None) = [0x00, 0x40, 0, 0, 0, 0]"
    by (simp add: mock_burst)
  have "sint (snd (fst (ist8310Read (build0 False False) ?p sample0 (world0 None))) X)
          = wrap_int16 (- LE16 0x00 0x40 * 3)"
    using ist8310Read_decoded(1) [OF a bb [symmetric] refl, of sample0] by simp
  moreover have "LE16 0x00 0x40 = 16384"
    by (simp add: LE16_def)
  ultimately show ?thesis
    using a bb by (simp add: ist8310Read_ack wrap_int16_def)
qed

text \<open>
  Claim C1, amended. For every content \<open>B\<close> of the six-byte buffer after an acknowledged
  burst, the read stores \<open>X = -LE16(B[0..1]) * 3\<close>, \<open>Y = LE16(B[2..3]) * 3\<close> and
  \<open>Z = LE16(B[4..5]) * 3\<close> exactly, for each axis whose product fits the range of
  \<^verbatim>\<open>int16_t\<close>. The buffer \<open>[0x10, 0x00, 0x20, 0x00, 0x30, 0x00]\<close> decodes to
  \<open>X = -48\<close>, \<open>Y = 96\<close>, \<open>Z = 144\<close>.
\<close>

theorem ist8310Read_exact_when_fits:
  assumes "burst_ack b p w" and "B = burst_buffer b p w"
    and "out = snd (fst (ist8310Read b p magData w))"
  shows "(fits_int16 (- LE16 (B ! 0) (B ! 1) * 3) \<longrightarrow> sint (out X) = - LE16 (B ! 0) (B ! 1) * 3)
       \<and> (fits_int16 (LE16 (B ! 2) (B ! 3) * 3) \<longrightarrow> sint (out Y) = LE16 (B ! 2) (B ! 3) * 3)
       \<and> (fits_int16 (LE16 (B ! 4) (B ! 5) * 3) \<longrightarrow> sint (out Z) = LE16 (B ! 4) (B ! 5) * 3)"
  using ist8310Read_decoded [OF assms] by (simp add: fits_int16_wrap)

theorem ist8310Read_exact_when_fits_witness:
  "burst_ack (build0 False False) (mock True [0x10, 0x00, 0x20, 0x00, 0x30, 0x00] True True) (world0 None)
   \<and> burst_buffer (build0 False False) (mock True [0x10, 0x00, 0x20, 0x00, 0x30, 0x00] True True) (world0 None)
       = [0x10, 0x00, 0x20, 0x00, 0x30, 0x00]
   \<and> fits_int16 (- LE16 0x10 0x00 * 3) \<and> fits_int16 (LE16 0x20 0x00 * 3) \<and> fits_int16 (LE16 0x30 0x00 * 3)
   \<and> sint (snd (fst (ist8310Read (build0 False False)
         (mock True [0x10, 0x00, 0x20, 0x00, 0x30, 0x00] True True) sample0 (world0 None))) X) = - 48
   \<and> sint (snd (fst (ist8310Read (build0 False False)
         (mock True [0x10, 0x00, 0x20, 0x00, 0x30, 0x00] True True) sample0 (world0 None))) Y) = 96
   \<and> sint (snd (fst (ist8310Read (build0 False False)
         (mock True [0x10, 0x00, 0x20, 0x00, 0x30, 0x00] True True) sample0 (world0 None))) Z) = 144"
proof -
  let ?p = "mock True [0x10, 0x00, 0x20, 0x00, 0x30, 0x00] True True"
  have a: "burst_ack (build0 False False) ?p (world0 None)"
    by (simp add: mock_burst)
  have bb: "burst_buffer (build0 False False) ?p (world0 None) = [0x10, 0x00, 0x20, 0x00, 0x30, 0x00]"
    by (simp add: mock_burst)
  have le: "LE16 0x10 0x00 = 16" "LE16 0x20 0x00 = 32" "LE16 0x30 0x00 = 48"
    by (simp_all add: LE16_def)
  show ?thesis
    using a bb ist8310Read_exact_when_fits [OF a bb [symmetric] refl, of sample0]
    by (simp add: le fits_int16_def)
qed

text \<open>
  Claim C5. When the six-byte data burst is not acknowledged, the read returns false, the
  caller's sample is the one passed in, and the only platform call is the burst itself:
  no re-arm write is issued.
\<close>

theorem ist8310Read_nack_unchanged:
  assumes "\<not> burst_ack b p w"
  shows "ist8310Read b p magData w = ((False, magData), w\<lparr>trace := trace w @ [data_read b]\<rparr>)"
  using assms by (rule ist8310Read_nack)

theorem ist8310Read_nack_unchanged_witness:
  "\<not> burst_ack (build0 False False) (mock False [0x10, 0x00, 0x20, 0x00, 0x30, 0x00] True True) (world0 None)
   \<and> ist8310Read (build0 False False) (mock False [0x10, 0x00, 0x20, 0x00, 0x30, 0x00] True True)
        sample0 (world0 None)
      = ((False, sample0), \<lparr>ist8310Config = None, intIO = 0, trace = [i2cRead_ev 1 0x0C 0x03 6]\<rparr>)"
proof -
  let ?p = "mock False [0x10, 0x00, 0x20, 0x00, 0x30, 0x00] True True"
  have a: "\<not> burst_ack (build0 False False) ?p (world0 None)"
    by (simp add: mock_burst)
  show ?thesis
    using a ist8310Read_nack_unchanged [OF a, of sample0]
    by (simp add: world0_def build0_def data_read_def)
qed

text \<open>
  Claim C6. When the six-byte data burst is acknowledged, the read stores the decoded
  sample, issues exactly one write of the single-measurement value to the operating-mode
  register after the burst, and returns true. This holds whatever the bus answers to
  writes (\<open>wr\<close> is any answer function): the acknowledge of the re-arm write affects
  neither the return value nor the sample.
\<close>

theorem ist8310Read_ack_rearms:
  assumes "burst_ack b p w" and "B = burst_buffer b p w"
  shows "\<exists>out. ist8310Read b (p\<lparr>bus_write := wr\<rparr>) magData w
               = ((True, out), w\<lparr>trace := trace w @ [data_read b, mode_write b]\<rparr>)
             \<and> sint (out X) = wrap_int16 (- LE16 (B ! 0) (B ! 1) * 3)
             \<and> sint (out Y) = wrap_int16 (LE16 (B ! 2) (B ! 3) * 3)
             \<and> sint (out Z) = wrap_int16 (LE16 (B ! 4) (B ! 5) * 3)"
proof -
  let ?q = "p\<lparr>bus_write := wr\<rparr>"
  have a: "burst_ack b ?q w" and bb: "B = burst_buffer b ?q w"
    using assms by (simp_all add: burst_bus_write)
  obtain out where out: "out = snd (fst (ist8310Read b ?q magData w))"
    by simp
  have "ist8310Read b ?q magData w = ((True, out), w\<lparr>trace := trace w @ [data_read b, mode_write b]\<rparr>)"
    using ist8310Read_ack [OF a, of magData] out by simp
  then show ?thesis
    using ist8310Read_decoded [OF a bb out] by blast
qed

theorem ist8310Read_ack_rearms_witness:
  "burst_ack (build0 False False) (mock True [0x10, 0x00, 0x20, 0x00, 0x30, 0x00] True True) (world0 None)
   \<and> fst (fst (ist8310Read (build0 False False) (mock True [0x10, 0x00, 0x20, 0x00, 0x30, 0x00] False True)
         sample0 (world0 None)))
   \<and> snd (ist8310Read (build0 False False) (mock True [0x10, 0x00, 0x20, 0x00, 0x30, 0x00] False True)
         sample0 (world0 None))
       = \<lparr>ist8310Config = None, intIO = 0, trace = [i2cRead_ev 1 0x0C 0x03 6, i2cWrite_ev 1 0x0C 0x0A 0x01]\<rparr>
   \<and> sint (snd (fst (ist8310Read (build0 False False)
         (mock True [0x10, 0x00, 0x20, 0x00, 0x30, 0x00] False True) sample0 (world0 None))) X) = - 48
   \<and> sint (snd (fst (ist8310Read (build0 False False)
         (mock True [0x10, 0x00, 0x20, 0x00, 0x30, 0x00] False True) sample0 (world0 None))) Y) = 96
   \<and> sint (snd (fst (ist8310Read (build0 False False)
         (mock True [0x10, 0x00, 0x20, 0x00, 0x30, 0x00] False True) sample0 (world0 None))) Z) = 144"
proof -
  let ?p = "mock True [0x10, 0x00, 0x20, 0x00, 0x30, 0x00] True True"
  have a: "burst_ack (build0 False False) ?p (world0 None)"
    by (simp add: mock_burst)
  have bb: "burst_buffer (build0 False False) ?p (world0 None) = [0x10, 0x00, 0x20, 0x00, 0x30, 0x00]"
    by (simp add: mock_burst)
  have q: "?p\<lparr>bus_write := (\<lambda>tr dev addr reg data. False)\<rparr>
             = mock True [0x10, 0x00, 0x20, 0x00, 0x30, 0x00] False True"
    by (simp add: mock_def)
  have le: "LE16 0x10 0x00 = 16" "LE16 0x20 0x00 = 32" "LE16 0x30 0x00 = 48"
    by (simp_all add: LE16_def)
  show ?thesis
    using a ist8310Read_ack_rearms [OF a bb [symmetric], of "\<lambda>tr dev addr reg data. False" sample0]
    by (auto simp add: q le wrap_int16_def world0_def build0_def ist8310_ops)
qed

section \<open>Detection\<close>

lemma whoami_i2cRead:
  "i2cRead p (MAG_I2C_INSTANCE b) 0x0C 0x00 1 [0] w
     = ((whoami_ack b p w, [whoami_byte b p w]), w\<lparr>trace := trace w @ [whoami_read b]\<rparr>)"
  by (cases "snd (bus_read p (trace w) (MAG_I2C_INSTANCE b) 0x0C 0x00 1)")
     (simp_all add: i2cRead_def whoami_ack_def whoami_byte_def whoami_read_def Let_def case_prod_beta)

lemma whoami_set_config:
  "whoami_ack b p (w\<lparr>ist8310Config := cfg\<rparr>) = whoami_ack b p w"
  "whoami_byte b p (w\<lparr>ist8310Config := cfg\<rparr>) = whoami_byte b p w"
  by (simp_all add: whoami_ack_def whoami_byte_def)

lemma ist8310Detect_eq:
  "ist8310Detect b p mag cfg w =
     ((if whoami_ack b p w \<and> whoami_byte b p w = 0x10
       then (True, mag\<lparr>init := Some Fn_ist8310Init, read := Some Fn_ist8310Read\<rparr>)
       else (False, mag)),
      w\<lparr>ist8310Config := cfg, trace := trace w @ [whoami_read b]\<rparr>)"
  using whoami_i2cRead [of p b "w\<lparr>ist8310Config := cfg\<rparr>"]
  by (simp add: ist8310Detect_def ist8310_regs whoami_set_config Let_def)

lemma mock_whoami:
  "whoami_ack b (mock ra (x # xs) wa lv) w = ra"
  "whoami_byte b (mock ra (x # xs) wa lv) w = x"
  by (simp_all add: whoami_ack_def whoami_byte_def mock_def)

section \<open>Properties of the detection\<close>

text \<open>
  Claim C3. The detection returns true if and only if the single-byte who-am-i read is
  acknowledged and the byte it returned is 0x10 (so it returns false for every other
  byte, and for a NACK whatever the byte); when it returns true, the capability record is
  the one passed in with its init and read slots set to this driver's functions.
\<close>

theorem ist8310Detect_iff:
  "(fst (fst (ist8310Detect b p mag cfg w)) \<longleftrightarrow> whoami_ack b p w \<and> whoami_byte b p w = 0x10)
   \<and> (fst (fst (ist8310Detect b p mag cfg w))
        \<longrightarrow> snd (fst (ist8310Detect b p mag cfg w))
              = mag\<lparr>init := Some Fn_ist8310Init, read := Some Fn_ist8310Read\<rparr>)"
  by (simp add: ist8310Detect_eq)

theorem ist8310Detect_iff_witness:
  "fst (fst (ist8310Detect (build0 False False) (mock True [0x10] True True) mag0 None (world0 None)))
   \<and> snd (fst (ist8310Detect (build0 False False) (mock True [0x10] True True) mag0 None (world0 None)))
       = \<lparr>init = Some Fn_ist8310Init, read = Some Fn_ist8310Read\<rparr>
   \<and> \<not> fst (fst (ist8310Detect (build0 False False) (mock True [0x11] True True) mag0 None (world0 None)))
   \<and> \<not> fst (fst (ist8310Detect (build0 False False) (mock False [0x10] True True) mag0 None (world0 None)))"
  using ist8310Detect_iff [of "build0 False False" "mock True [0x10] True True" mag0 None "world0 None"]
    ist8310Detect_iff [of "build0 False False" "mock True [0x11] True True" mag0 None "world0 None"]
    ist8310Detect_iff [of "build0 False False" "mock False [0x10] True True" mag0 None "world0 None"]
  by (simp add: mock_whoami mag0_def)

text \<open>
  Claim C4. When the detection fails (the who-am-i read is not acknowledged, or the byte
  is not 0x10), it returns false and the capability record is the one passed in, every
  field unchanged.
\<close>

theorem ist8310Detect_failure_frame:
  assumes "\<not> whoami_ack b p w \<or> whoami_byte b p w \<noteq> 0x10"
  shows "fst (ist8310Detect b p mag cfg w) = (False, mag)"
  using assms by (auto simp add: ist8310Detect_eq)

theorem ist8310Detect_failure_frame_witness:
  "whoami_ack (build0 False False) (mock True [0x11] True True) (world0 None)
   \<and> whoami_byte (build0 False False) (mock True [0x11] True True) (world0 None) = 0x11
   \<and> fst (ist8310Detect (build0 False False) (mock True [0x11] True True)
        \<lparr>init = Some (OtherInitFn 3), read = None\<rparr> None (world0 None))
      = (False, \<lparr>init = Some (OtherInitFn 3), read = None\<rparr>)"
proof -
  have h: "\<not> whoami_ack (build0 False False) (mock True [0x11] True True) (world0 None)
           \<or> whoami_byte (build0 False False) (mock True [0x11] True True) (world0 None) \<noteq> 0x10"
    by (simp add: mock_whoami)
  show ?thesis
    using ist8310Detect_failure_frame [OF h, of "\<lparr>init = Some (OtherInitFn 3), read = None\<rparr>" None]
    by (simp add: mock_whoami)
qed

text \<open>
  Claim C9. The detection stores its configuration argument in the process-wide pointer
  unconditionally, and before the who-am-i read: the final world is the one the bus read
  leaves when started with the pointer already updated. Even when the detection returns
  false, the configuration stored before has been overwritten.
\<close>

theorem ist8310Detect_sets_config:
  "ist8310Config (snd (ist8310Detect b p mag cfg w)) = cfg
   \<and> snd (ist8310Detect b p mag cfg w)
       = snd (i2cRead p (MAG_I2C_INSTANCE b) IST8310_ADDRESS IST8310_REG_WHOAMI 1 [0] (w\<lparr>ist8310Config := cfg\<rparr>))"
  by (simp add: ist8310Detect_eq i2cRead_world ist8310_regs whoami_read_def)

theorem ist8310Detect_sets_config_witness:
  "\<not> fst (fst (ist8310Detect (build0 False False) (mock False [0x10] True True) mag0
        (Some \<lparr>intTag = 5\<rparr>) (world0 (Some \<lparr>intTag = 9\<rparr>))))
   \<and> ist8310Config (snd (ist8310Detect (build0 False False) (mock False [0x10] True True) mag0
        (Some \<lparr>intTag = 5\<rparr>) (world0 (Some \<lparr>intTag = 9\<rparr>)))) = Some \<lparr>intTag = 5\<rparr>"
proof -
  have "\<not> fst (fst (ist8310Detect (build0 False False) (mock False [0x10] True True) mag0
        (Some \<lparr>intTag = 5\<rparr>) (world0 (Some \<lparr>intTag = 9\<rparr>))))"
    by (simp add: ist8310Detect_eq mock_whoami)
  then show ?thesis
    using ist8310Detect_sets_config [of "build0 False False" "mock False [0x10] True True" mag0
        "Some \<lparr>intTag = 5\<rparr>" "world0 (Some \<lparr>intTag = 9\<rparr>)", THEN conjunct1]
    by simp
qed

section \<open>Initialisation\<close>

lemma init_register_events_bus_write:
  "init_register_events b (p\<lparr>bus_write := wr\<rparr>) w = init_register_events b p w"
  by (simp add: init_register_events_def init_data_ack_def burst_ack_def)

lemma init_register_events_io_level:
  "init_register_events b (p\<lparr>io_level := lv\<rparr>) w = init_register_events b p w"
  by (simp add: init_register_events_def init_data_ack_def burst_ack_def)

lemma init_register_events_no_exti:
  "filter is_exti_call (init_register_events b p w) = []"
  by (simp add: init_register_events_def ist8310_ops)

lemma ist8310Init_regs:
  "ist8310Init b p w =
     ist8310ConfigureDataReadyInterruptHandling b p (w\<lparr>trace := trace w @ init_register_events b p w\<rparr>)"
  by (simp add: ist8310Init_def i2cWrite_def delay_def ist8310Read_world init_register_events_def
      init_data_ack_def burst_ack_def ist8310_regs ist8310_ops Let_def case_prod_beta)

lemma configure_disabled:
  "\<not> USE_MAG_DATA_READY_SIGNAL b \<Longrightarrow> ist8310ConfigureDataReadyInterruptHandling b p w = Some w"
  by (simp add: ist8310ConfigureDataReadyInterruptHandling_def)

lemma configure_no_tag:
  "ist8310Config w = Some cfg \<Longrightarrow> intTag cfg = 0
   \<Longrightarrow> ist8310ConfigureDataReadyInterruptHandling b p w = Some w"
  by (simp add: ist8310ConfigureDataReadyInterruptHandling_def)

lemma configure_line_low:
  assumes "USE_MAG_DATA_READY_SIGNAL b" and "ENSURE_MAG_DATA_READY_IS_HIGH b"
    and "ist8310Config w = Some cfg" and "intTag cfg \<noteq> 0"
    and "\<not> io_level p (trace w @ [IOGetByTag_ev (intTag cfg)]) (io_by_tag p (intTag cfg))"
  shows "ist8310ConfigureDataReadyInterruptHandling b p w =
           Some (w\<lparr>intIO := io_by_tag p (intTag cfg),
                   trace := trace w @ [IOGetByTag_ev (intTag cfg), IORead_ev (io_by_tag p (intTag cfg))]\<rparr>)"
  using assms
  by (simp add: ist8310ConfigureDataReadyInterruptHandling_def IOGetByTag_def IORead_def
      Let_def case_prod_beta)

lemma configure_total:
  assumes "USE_MAG_DATA_READY_SIGNAL b \<longrightarrow> ist8310Config w \<noteq> None"
  shows "\<exists>w' irq. ist8310ConfigureDataReadyInterruptHandling b p w = Some w'
           \<and> trace w' = trace w @ irq \<and> filter is_register_event irq = []"
proof (cases "USE_MAG_DATA_READY_SIGNAL b")
  case False
  then show ?thesis by (simp add: configure_disabled)
next
  case True
  with assms obtain cfg where cfg: "ist8310Config w = Some cfg" by auto
  show ?thesis
  proof (cases "intTag cfg = 0")
    case True
    with cfg show ?thesis by (simp add: configure_no_tag)
  next
    case False
    with True cfg show ?thesis
      by (simp add: ist8310ConfigureDataReadyInterruptHandling_def IOGetByTag_def IORead_def
          EXTIHandlerInit_def EXTIConfig_def EXTIEnable_def Let_def case_prod_beta)
  qed
qed

lemma ist8310Init_total:
  assumes "USE_MAG_DATA_READY_SIGNAL b \<longrightarrow> ist8310Config w \<noteq> None"
  shows "\<exists>w' irq. ist8310Init b p w = Some w'
           \<and> trace w' = trace w @ init_register_events b p w @ irq \<and> filter is_register_event irq = []"
  using configure_total [of b "w\<lparr>trace := trace w @ init_register_events b p w\<rparr>" p] assms
  by (simp add: ist8310Init_regs)

lemma mock_init_data_ack: "init_data_ack b (mock ra bs wa lv) w = ra"
  by (simp add: init_data_ack_def burst_ack_def mock_def)

section \<open>Properties of the initialisation\<close>

text \<open>
  Claim C2, as stated, fails: on a bus that acknowledges the data burst the initialisation
  issues five bus operations, not four, because the read re-arms the sensor itself before
  the initialisation re-arms it again.
\<close>

theorem ist8310Init_four_ops_counterexample:
  "ist8310Init (build0 False False) (mock True [0x10, 0x00, 0x20, 0x00, 0x30, 0x00] True True) (world0 None) \<noteq> None
   \<and> filter is_bus_op (issued (ist8310Init (build0 False False)
         (mock True [0x10, 0x00, 0x20, 0x00, 0x30, 0x00] True True) (world0 None)))
       = [i2cWrite_ev 1 0x0C 0x0A 0x01, i2cWrite_ev 1 0x0C 0x41 0x24, i2cRead_ev 1 0x0C 0x03 6,
          i2cWrite_ev 1 0x0C 0x0A 0x01, i2cWrite_ev 1 0x0C 0x0A 0x01]
   \<and> filter is_bus_op (issued (ist8310Init (build0 False False)
         (mock True [0x10, 0x00, 0x20, 0x00, 0x30, 0x00] True True) (world0 None)))
       \<noteq> [i2cWrite_ev 1 0x0C 0x0A 0x01, i2cWrite_ev 1 0x0C 0x41 0x24, i2cRead_ev 1 0x0C 0x03 6,
          i2cWrite_ev 1 0x0C 0x0A 0x01]"
  by (simp add: ist8310Init_regs configure_disabled init_register_events_def mock_init_data_ack
      issued_def build0_def world0_def ist8310_ops)

text \<open>
  Claim C2, amended. Called with a configuration stored (whenever the data-ready signal is
  compiled in), the initialisation returns, and what it issues starts with: the mode
  write, a delay of 5, the averaging write, a delay of 5, one six-byte data read, then the
  re-arm write of the read itself if and only if the burst was acknowledged, a delay of 5,
  and its own re-arm write; nothing issued afterwards is a bus operation or a delay. This
  holds whatever the bus answers to writes (\<open>wr\<close> is any answer function).
\<close>

theorem ist8310Init_sequence:
  assumes "USE_MAG_DATA_READY_SIGNAL b \<longrightarrow> ist8310Config w \<noteq> None"
  shows "\<exists>w' irq. ist8310Init b (p\<lparr>bus_write := wr\<rparr>) w = Some w'
           \<and> trace w' = trace w @ [mode_write b, delay_ev 5, averaging_write b, delay_ev 5, data_read b]
                          @ (if init_data_ack b p w then [mode_write b] else [])
                          @ [delay_ev 5, mode_write b] @ irq
           \<and> filter is_register_event irq = []"
proof -
  have "\<exists>w' irq. ist8310Init b (p\<lparr>bus_write := wr\<rparr>) w = Some w'
           \<and> trace w' = trace w @ init_register_events b p w @ irq
           \<and> filter is_register_event irq = []"
    using ist8310Init_total [OF assms, of "p\<lparr>bus_write := wr\<rparr>"]
    by (simp only: init_register_events_bus_write)
  then show ?thesis
    by (simp only: init_register_events_def append_assoc)
qed

theorem ist8310Init_sequence_witness:
  "USE_MAG_DATA_READY_SIGNAL (build0 True False)
   \<and> ist8310Config (world0 (Some \<lparr>intTag = 5\<rparr>)) = Some \<lparr>intTag = 5\<rparr>
   \<and> filter is_register_event (issued (ist8310Init (build0 True False) (mock False [] False True)
         (world0 (Some \<lparr>intTag = 5\<rparr>))))
       = [i2cWrite_ev 1 0x0C 0x0A 0x01, delay_ev 5, i2cWrite_ev 1 0x0C 0x41 0x24, delay_ev 5, i2cRead_ev 1 0x0C 0x03 6,
          delay_ev 5, i2cWrite_ev 1 0x0C 0x0A 0x01]
   \<and> filter is_register_event (issued (ist8310Init (build0 True False)
         (mock True [0x10, 0x00, 0x20, 0x00, 0x30, 0x00] False True) (world0 (Some \<lparr>intTag = 5\<rparr>))))
       = [i2cWrite_ev 1 0x0C 0x0A 0x01, delay_ev 5, i2cWrite_ev 1 0x0C 0x41 0x24, delay_ev 5, i2cRead_ev 1 0x0C 0x03 6,
          i2cWrite_ev 1 0x0C 0x0A 0x01, delay_ev 5, i2cWrite_ev 1 0x0C 0x0A 0x01]"
proof -
  let ?b = "build0 True False" and ?w = "world0 (Some \<lparr>intTag = 5\<rparr>)"
  let ?wr = "\<lambda>(tr :: event list) (dev :: nat) (addr :: u8) (reg :: u8) (data :: u8). False"
  have h: "USE_MAG_DATA_READY_SIGNAL ?b \<longrightarrow> ist8310Config ?w \<noteq> None"
    by (simp add: world0_def)
  have q: "(mock ra bs True True)\<lparr>bus_write := ?wr\<rparr> = mock ra bs False True" for ra bs
    by (simp add: mock_def)
  have "filter is_register_event (issued (ist8310Init ?b (mock False [] False True) ?w))
       = [i2cWrite_ev 1 0x0C 0x0A 0x01, delay_ev 5, i2cWrite_ev 1 0x0C 0x41 0x24, delay_ev 5, i2cRead_ev 1 0x0C 0x03 6,
          delay_ev 5, i2cWrite_ev 1 0x0C 0x0A 0x01]"
    using ist8310Init_sequence [OF h, where p = "mock False [] True True" and wr = ?wr]
    by (auto simp add: q mock_init_data_ack issued_def world0_def build0_def ist8310_ops)
  moreover have "filter is_register_event (issued (ist8310Init ?b
         (mock True [0x10, 0x00, 0x20, 0x00, 0x30, 0x00] False True) ?w))
       = [i2cWrite_ev 1 0x0C 0x0A 0x01, delay_ev 5, i2cWrite_ev 1 0x0C 0x41 0x24, delay_ev 5, i2cRead_ev 1 0x0C 0x03 6,
          i2cWrite_ev 1 0x0C 0x0A 0x01, delay_ev 5, i2cWrite_ev 1 0x0C 0x0A 0x01]"
    using ist8310Init_sequence [OF h, where p = "mock True [0x10, 0x00, 0x20, 0x00, 0x30, 0x00] True True" and wr = ?wr]
    by (auto simp add: q mock_init_data_ack issued_def world0_def build0_def ist8310_ops)
  ultimately show ?thesis
    by (simp add: build0_def world0_def)
qed

text \<open>
  Claim C7. If the configuration gives no interrupt line (the tag is 0), the
  initialisation issues its register sequence and nothing else: no call that registers,
  configures or enables an external interrupt occurs, in any build.
\<close>

theorem ist8310Init_no_interrupt_line:
  assumes "ist8310Config w = Some cfg" and "intTag cfg = 0"
  shows "ist8310Init b p w = Some (w\<lparr>trace := trace w @ init_register_events b p w\<rparr>)
       \<and> filter is_exti_call (init_register_events b p w) = []"
  using assms by (simp add: ist8310Init_regs configure_no_tag init_register_events_no_exti)

theorem ist8310Init_no_interrupt_line_witness:
  "ist8310Config (world0 (Some \<lparr>intTag = 0\<rparr>)) = Some \<lparr>intTag = 0\<rparr>
   \<and> intTag \<lparr>intTag = 0\<rparr> = 0
   \<and> filter is_exti_call (issued (ist8310Init (build0 True True)
         (mock True [0x10, 0x00, 0x20, 0x00, 0x30, 0x00] True True) (world0 (Some \<lparr>intTag = 0\<rparr>)))) = []
   \<and> issued (ist8310Init (build0 True True)
         (mock True [0x10, 0x00, 0x20, 0x00, 0x30, 0x00] True True) (world0 (Some \<lparr>intTag = 0\<rparr>)))
       = [i2cWrite_ev 1 0x0C 0x0A 0x01, delay_ev 5, i2cWrite_ev 1 0x0C 0x41 0x24, delay_ev 5, i2cRead_ev 1 0x0C 0x03 6,
          i2cWrite_ev 1 0x0C 0x0A 0x01, delay_ev 5, i2cWrite_ev 1 0x0C 0x0A 0x01]"
proof -
  have h: "ist8310Config (world0 (Some \<lparr>intTag = 0\<rparr>)) = Some \<lparr>intTag = 0\<rparr>"
    by (simp add: world0_def)
  have z: "intTag \<lparr>intTag = 0\<rparr> = 0"
    by simp
  show ?thesis
    using ist8310Init_no_interrupt_line [OF h z, where b = "build0 True True"
        and p = "mock True [0x10, 0x00, 0x20, 0x00, 0x30, 0x00] True True"]
    by (simp add: init_register_events_def mock_init_data_ack issued_def world0_def build0_def ist8310_ops)
qed

text \<open>
  Claim C8. If the idle-high check is compiled in and the configured line reads low when
  the initialisation reads it, the initialisation issues its register sequence, looks the
  pin up, reads it, and stops: no call registers, configures or enables an external
  interrupt. The register sequence is the one issued whatever the line reads (\<open>lv\<close> is
  any level function).
\<close>

theorem ist8310Init_line_low:
  assumes "USE_MAG_DATA_READY_SIGNAL b" and "ENSURE_MAG_DATA_READY_IS_HIGH b"
    and "ist8310Config w = Some cfg" and "intTag cfg \<noteq> 0"
    and "\<not> io_level p (trace w @ init_register_events b p w @ [IOGetByTag_ev (intTag cfg)])
             (io_by_tag p (intTag cfg))"
  shows "ist8310Init b p w =
           Some (w\<lparr>intIO := io_by_tag p (intTag cfg),
                   trace := trace w @ init_register_events b p w
                            @ [IOGetByTag_ev (intTag cfg), IORead_ev (io_by_tag p (intTag cfg))]\<rparr>)
       \<and> filter is_exti_call
           (init_register_events b p w @ [IOGetByTag_ev (intTag cfg), IORead_ev (io_by_tag p (intTag cfg))]) = []
       \<and> (\<exists>w' irq. ist8310Init b (p\<lparr>io_level := lv\<rparr>) w = Some w'
             \<and> trace w' = trace w @ init_register_events b p w @ irq
             \<and> filter is_register_event irq = [])"
proof -
  let ?w = "w\<lparr>trace := trace w @ init_register_events b p w\<rparr>"
  have "ist8310ConfigureDataReadyInterruptHandling b p ?w =
          Some (?w\<lparr>intIO := io_by_tag p (intTag cfg),
                   trace := trace ?w @ [IOGetByTag_ev (intTag cfg), IORead_ev (io_by_tag p (intTag cfg))]\<rparr>)"
    using assms by (intro configure_line_low) simp_all
  then have "ist8310Init b p w =
           Some (w\<lparr>intIO := io_by_tag p (intTag cfg),
                   trace := trace w @ init_register_events b p w
                            @ [IOGetByTag_ev (intTag cfg), IORead_ev (io_by_tag p (intTag cfg))]\<rparr>)"
    by (simp add: ist8310Init_regs)
  moreover have "USE_MAG_DATA_READY_SIGNAL b \<longrightarrow> ist8310Config w \<noteq> None"
    using assms by simp
  then have "\<exists>w' irq. ist8310Init b (p\<lparr>io_level := lv\<rparr>) w = Some w'
             \<and> trace w' = trace w @ init_register_events b p w @ irq
             \<and> filter is_register_event irq = []"
    using ist8310Init_total [of b w "p\<lparr>io_level := lv\<rparr>"]
    by (simp add: init_register_events_io_level)
  ultimately show ?thesis
    by (simp add: init_register_events_no_exti)
qed

theorem ist8310Init_line_low_witness:
  "USE_MAG_DATA_READY_SIGNAL (build0 True True) \<and> ENSURE_MAG_DATA_READY_IS_HIGH (build0 True True)
   \<and> ist8310Config (world0 (Some \<lparr>intTag = 5\<rparr>)) = Some \<lparr>intTag = 5\<rparr>
   \<and> intTag \<lparr>intTag = 5\<rparr> \<noteq> 0
   \<and> issued (ist8310Init (build0 True True)
         (mock True [0x10, 0x00, 0x20, 0x00, 0x30, 0x00] True False) (world0 (Some \<lparr>intTag = 5\<rparr>)))
       = [i2cWrite_ev 1 0x0C 0x0A 0x01, delay_ev 5, i2cWrite_ev 1 0x0C 0x41 0x24, delay_ev 5, i2cRead_ev 1 0x0C 0x03 6,
          i2cWrite_ev 1 0x0C 0x0A 0x01, delay_ev 5, i2cWrite_ev 1 0x0C 0x0A 0x01, IOGetByTag_ev 5, IORead_ev 5]
   \<and> filter is_register_event (issued (ist8310Init (build0 True True)
         (mock True [0x10, 0x00, 0x20, 0x00, 0x30, 0x00] True True) (world0 (Some \<lparr>intTag = 5\<rparr>))))
       = [i2cWrite_ev 1 0x0C 0x0A 0x01, delay_ev 5, i2cWrite_ev 1 0x0C 0x41 0x24, delay_ev 5, i2cRead_ev 1 0x0C 0x03 6,
          i2cWrite_ev 1 0x0C 0x0A 0x01, delay_ev 5, i2cWrite_ev 1 0x0C 0x0A 0x01]"
proof -
  let ?b = "build0 True True" and ?w = "world0 (Some \<lparr>intTag = 5\<rparr>)"
  let ?p = "mock True [0x10, 0x00, 0x20, 0x00, 0x30, 0x00] True False"
  let ?lv = "\<lambda>(tr :: event list) (io :: IO_t). True"
  have u: "USE_MAG_DATA_READY_SIGNAL ?b" and e: "ENSURE_MAG_DATA_READY_IS_HIGH ?b"
    by (simp_all add: build0_def)
  have c: "ist8310Config ?w = Some \<lparr>intTag = 5\<rparr>"
    by (simp add: world0_def)
  have t: "intTag \<lparr>intTag = 5\<rparr> \<noteq> 0"
    by simp
  have l: "\<not> io_level ?p (trace ?w @ init_register_events ?b ?p ?w @ [IOGetByTag_ev (intTag \<lparr>intTag = 5\<rparr>)])
             (io_by_tag ?p (intTag \<lparr>intTag = 5\<rparr>))"
    by (simp add: mock_def)
  have q: "?p\<lparr>io_level := ?lv\<rparr> = mock True [0x10, 0x00, 0x20, 0x00, 0x30, 0x00] True True"
    by (simp add: mock_def)
  have io: "io_by_tag ?p 5 = 5"
    by (simp add: mock_def)
  have ev: "init_register_events ?b ?p ?w
       = [i2cWrite_ev 1 0x0C 0x0A 0x01, delay_ev 5, i2cWrite_ev 1 0x0C 0x41 0x24, delay_ev 5, i2cRead_ev 1 0x0C 0x03 6,
          i2cWrite_ev 1 0x0C 0x0A 0x01, delay_ev 5, i2cWrite_ev 1 0x0C 0x0A 0x01]"
    by (simp add: init_register_events_def mock_init_data_ack build0_def ist8310_ops)
  have tr: "trace ?w = []"
    by (simp add: world0_def)
  show ?thesis
    using u e c t ist8310Init_line_low [OF u e c t l, where lv = ?lv]
    by (auto simp add: q io ev tr issued_def)
qed

end
